theory Spec2Isabelle
  imports Main "HOL-Library.Word"
begin

section \<open>Data model\<close>

text \<open>
  The program of \<^verbatim>\<open>src/main.py\<close> downloads one satellite image every four hours and
  serves it over HTTP. Its only store is the file \<^verbatim>\<open>DATA_DIR / "satellite_image.jpg"\<close>:
  \<^verbatim>\<open>get_gibs_image\<close> writes it and \<^verbatim>\<open>get_image\<close> reads it. The state of the program
  is therefore the content of that file, or \<open>None\<close> while the file does not exist.
\<close>

type_synonym bytes = "8 word list"

type_synonym disk = "bytes option"

text \<open>
  The bounds of the bounding box are the float literals of lines 21 and 22. Each has one
  fractional digit and is a multiple of one half, so it is exact in binary floating point
  and Python prints it back with exactly that digit. The model counts in tenths of a
  degree.
\<close>

type_synonym tenths = int

definition LON_MIN :: tenths where "LON_MIN = - 465"
definition LAT_MIN :: tenths where "LAT_MIN = - 175"
definition LON_MAX :: tenths where "LON_MAX = - 420"
definition LAT_MAX :: tenths where "LAT_MAX = - 140"

record utc_date =
  year :: nat
  month :: nat
  day :: nat

text \<open>An instance of a subclass of \<^verbatim>\<open>Exception\<close>, with the text \<^verbatim>\<open>str(e)\<close>.\<close>

datatype exn = Exn string

text \<open>
  What \<^verbatim>\<open>requests.get(url)\<close> does: it returns a response with a status code and a
  body, or it raises (timeout, DNS failure, refused connection).
\<close>

datatype http_get = Replied int bytes | Raised exn

text \<open>
  What lines 47 and 48 do to the file: the write goes through; or \<^verbatim>\<open>open\<close> raises and the
  file is as before; or \<^verbatim>\<open>open(.., "wb")\<close> has truncated the file and \<^verbatim>\<open>f.write\<close> raises
  after \<open>k\<close> bytes of the body reached the file.
\<close>

datatype file_write = Written | Open_raises exn | Write_raises nat exn

text \<open>The lines printed by \<^verbatim>\<open>get_gibs_image\<close> (lines 29, 49, 52 and 56).\<close>

datatype log_line = Log_start | Log_done | Log_status int | Log_exn exn

text \<open>
  The world around one call of \<^verbatim>\<open>get_gibs_image\<close>: the clock read by
  \<^verbatim>\<open>datetime.utcnow()\<close>, the provider's answer to each URL, the file system's answer
  to the write, and what \<^verbatim>\<open>print\<close> does with each line: \<open>None\<close> when the line is
  printed, \<open>Some x\<close> when \<^verbatim>\<open>print\<close> raises \<open>x\<close> (a closed standard output, or one whose
  encoding has no character for the symbols that start every line).
\<close>

record env =
  clock :: "exn + utc_date"
  net :: "string \<Rightarrow> http_get"
  io :: file_write
  stdout :: "log_line \<Rightarrow> exn option"

section \<open>The request URL\<close>

definition digit :: "nat \<Rightarrow> char" where
  "digit n = ''0123456789'' ! (n mod 10)"

fun str_nat :: "nat \<Rightarrow> string" where
  "str_nat n = (if n < 10 then [digit n] else str_nat (n div 10) @ [digit n])"

text \<open>\<^verbatim>\<open>str\<close> of a float with one fractional digit, as an f-string inserts it.\<close>

definition float_str :: "tenths \<Rightarrow> string" where
  "float_str t =
     (if t < 0 then ''-'' else '''') @ str_nat (nat \<bar>t\<bar> div 10) @ ''.'' @ [digit (nat \<bar>t\<bar>)]"

text \<open>A decimal number padded with zeros on the left to the width \<open>w\<close>.\<close>

definition zero_padded :: "nat \<Rightarrow> nat \<Rightarrow> string" where
  "zero_padded w n = replicate (w - length (str_nat n)) (CHR ''0'') @ str_nat n"

text \<open>\<^verbatim>\<open>strftime("%Y-%m-%d")\<close>: the year on four digits, month and day on two.\<close>

definition strftime_Ymd :: "utc_date \<Rightarrow> string" where
  "strftime_Ymd d =
     zero_padded 4 (year d) @ ''-'' @ zero_padded 2 (month d) @ ''-'' @ zero_padded 2 (day d)"

text \<open>The f-string of lines 35 to 41.\<close>

definition gibs_url :: "string \<Rightarrow> string" where
  "gibs_url date_str =
     ''https://gibs.earthdata.nasa.gov/wms/epsg4326/best/wms.cgi?SERVICE=WMS''
     @ ''&REQUEST=GetMap&VERSION=1.3.0&LAYERS=VIIRS_SNPP_CorrectedReflectance_TrueColor''
     @ ''&STYLES=&FORMAT=image/jpeg&TRANSPARENT=FALSE&HEIGHT=800&WIDTH=800''
     @ ''&CRS=EPSG:4326&BBOX='' @ float_str LON_MIN @ '','' @ float_str LAT_MIN
     @ '','' @ float_str LON_MAX @ '','' @ float_str LAT_MAX
     @ ''&TIME='' @ date_str"

section \<open>Downloading the image\<close>

text \<open>
  The body of the \<^verbatim>\<open>try\<close> of lines 30 to 53. The result is \<open>Inl e\<close> when a statement
  raised \<open>e\<close>, and \<open>Inr b\<close> when the body reached \<^verbatim>\<open>return b\<close>; with it come the file
  as the body left it and the lines it printed. The two \<^verbatim>\<open>print\<close> calls of the body
  (lines 49 and 52) are statements that can raise like the others.
\<close>

definition try_body :: "env \<Rightarrow> disk \<Rightarrow> (exn + bool) \<times> disk \<times> log_line list" where
  "try_body e d =
     (case clock e of
        Inl x \<Rightarrow> (Inl x, d, [])
      | Inr today \<Rightarrow>
          (case net e (gibs_url (strftime_Ymd today)) of
             Raised x \<Rightarrow> (Inl x, d, [])
           | Replied status_code content \<Rightarrow>
               if status_code = 200 then
                 (case io e of
                    Open_raises x \<Rightarrow> (Inl x, d, [])
                  | Write_raises k x \<Rightarrow> (Inl x, Some (take k content), [])
                  | Written \<Rightarrow>
                      (case stdout e Log_done of
                         Some x \<Rightarrow> (Inl x, Some content, [])
                       | None \<Rightarrow> (Inr True, Some content, [Log_done])))
               else
                 (case stdout e (Log_status status_code) of
                    Some x \<Rightarrow> (Inl x, d, [])
                  | None \<Rightarrow> (Inr False, d, [Log_status status_code]))))"

text \<open>
  \<^verbatim>\<open>get_gibs_image\<close> (lines 25 to 57). The \<^verbatim>\<open>print\<close> of line 29 stands before the
  \<^verbatim>\<open>try\<close>: an exception it raises escapes to the caller. The handler
  \<^verbatim>\<open>except Exception\<close> catches every exception of the body, prints it (line 56) and
  returns \<^verbatim>\<open>False\<close>; an exception raised by that \<^verbatim>\<open>print\<close> escapes as well. The result
  is \<open>Inl x\<close> when \<open>x\<close> escapes to the caller and \<open>Inr b\<close> when the function returns
  \<open>b\<close>.
\<close>

definition get_gibs_image :: "env \<Rightarrow> disk \<Rightarrow> (exn + bool) \<times> disk \<times> log_line list" where
  "get_gibs_image e d =
     (case stdout e Log_start of
        Some x \<Rightarrow> (Inl x, d, [])
      | None \<Rightarrow>
          (case try_body e d of
             (Inl x, d', out) \<Rightarrow>
               (case stdout e (Log_exn x) of
                  Some y \<Rightarrow> (Inl y, d', Log_start # out)
                | None \<Rightarrow> (Inr False, d', Log_start # out @ [Log_exn x]))
           | (Inr b, d', out) \<Rightarrow> (Inr b, d', Log_start # out)))"

text \<open>
  The module runs \<^verbatim>\<open>DATA_DIR.mkdir(exist_ok=True)\<close> when it is loaded (line 17) and
  nothing else touches the data directory before the first request or download: a file
  left by an earlier run of the process is still there.
\<close>

definition module_init :: "disk \<Rightarrow> disk" where
  "module_init on_disk = on_disk"

section \<open>The refresh loop\<close>

text \<open>
  What the loop does, as seen from outside: a download with the boolean it returned, a
  sleep with its length in seconds, or the exception that ended the thread.
\<close>

datatype event = Attempt bool | Sleep nat | Died exn

text \<open>
  Where the loop stands: still running, about to start iteration \<open>i\<close>, or ended by an
  exception. Both come with the file and the events so far.
\<close>

datatype loop_state =
  Running nat disk "event list"
| Ended exn disk "event list"

text \<open>
  \<^verbatim>\<open>atualizar_periodicamente\<close> (lines 60 to 66) is \<^verbatim>\<open>while True\<close> around a download
  and \<^verbatim>\<open>time.sleep(4 * 3600)\<close>. The world of the \<open>i\<close>-th iteration is \<open>envs i\<close>. The
  loop has no \<^verbatim>\<open>break\<close> and no \<^verbatim>\<open>return\<close>: it ends only when an exception escapes
  from \<^verbatim>\<open>get_gibs_image\<close>, which ends the thread. The first argument bounds the
  number of iterations that are observed: the result is \<open>Running\<close> when the loop is
  still going after that many iterations, and \<open>Ended\<close> when it has ended before.
\<close>

fun atualizar_periodicamente ::
  "nat \<Rightarrow> (nat \<Rightarrow> env) \<Rightarrow> nat \<Rightarrow> disk \<Rightarrow> event list \<Rightarrow> loop_state" where
  "atualizar_periodicamente 0 envs i d evs = Running i d evs"
| "atualizar_periodicamente (Suc n) envs i d evs =
     (case get_gibs_image (envs i) d of
        (Inl x, d', out) \<Rightarrow> Ended x d' (evs @ [Died x])
      | (Inr b, d', out) \<Rightarrow>
          atualizar_periodicamente n envs (Suc i) d' (evs @ [Attempt b, Sleep (4 * 3600)]))"

text \<open>
  The file before the \<open>k\<close>-th download of the loop, and whether that download returns
  \<^verbatim>\<open>True\<close>.
\<close>

primrec disk_at :: "(nat \<Rightarrow> env) \<Rightarrow> disk \<Rightarrow> nat \<Rightarrow> disk" where
  "disk_at envs d 0 = d"
| "disk_at envs d (Suc k) = fst (snd (get_gibs_image (envs k) (disk_at envs d k)))"

definition outcome :: "(nat \<Rightarrow> env) \<Rightarrow> disk \<Rightarrow> nat \<Rightarrow> bool" where
  "outcome envs d k = (fst (get_gibs_image (envs k) (disk_at envs d k)) = Inr True)"

section \<open>The HTTP endpoint\<close>

text \<open>
  What the handler returns: a \<^verbatim>\<open>Response\<close> object built from a content and a media
  type, or a Python dictionary.
\<close>

datatype handler_result = Response bytes string | Dict "(string \<times> string) list"

text \<open>The text \<^verbatim>\<open>"Imagem nao encontrada."\<close> of line 92, with its a-tilde in UTF-8.\<close>

definition not_found_message :: string where
  "not_found_message = ''Imagem n'' @ [CHR 0xC3, CHR 0xA3] @ ''o encontrada.''"

text \<open>\<^verbatim>\<open>get_image\<close> (lines 82 to 92): it reads the file when the file exists.\<close>

definition get_image :: "disk \<Rightarrow> handler_result" where
  "get_image d =
     (case d of
        Some content \<Rightarrow> Response content ''image/jpeg''
      | None \<Rightarrow> Dict [(''error'', not_found_message)])"

datatype payload = Raw bytes | Json "(string \<times> string) list"

record http_response =
  status_code :: nat
  content_type :: string
  body :: payload

text \<open>
  Modelled from the spec: the web framework that turns the value returned by a handler
  into an HTTP response is a library and not part of \<^verbatim>\<open>src/\<close>. The external interface
  of the spec gives status 200 with the raw bytes under the handler's media type for the
  image, and a JSON body for the error payload, for which "the original always returns
  200": the route is declared without a status code and the \<^verbatim>\<open>Response\<close> is built
  without one.
\<close>

definition send :: "handler_result \<Rightarrow> http_response" where
  "send r =
     (case r of
        Response content media_type \<Rightarrow>
          \<lparr>status_code = 200, content_type = media_type, body = Raw content\<rparr>
      | Dict kvs \<Rightarrow>
          \<lparr>status_code = 200, content_type = ''application/json'', body = Json kvs\<rparr>)"

section \<open>Runs of the whole program\<close>

text \<open>
  The two actors touch the file one after the other: a download with its world, or a
  request \<^verbatim>\<open>GET /api/image.jpg\<close>. A run returns the responses to the requests, in
  order, and the file at the end.
\<close>

datatype action = Download env | Get_image

fun run :: "action list \<Rightarrow> disk \<Rightarrow> http_response list \<times> disk" where
  "run [] d = ([], d)"
| "run (Download e # as) d = run as (fst (snd (get_gibs_image e d)))"
| "run (Get_image # as) d =
     (case run as d of (rs, d') \<Rightarrow> (send (get_image d) # rs, d'))"

section \<open>A read during a write\<close>

text \<open>
  The download runs in its own thread (line 73) and the file is shared with the request
  handlers without a lock. The write is two statements: line 47, \<^verbatim>\<open>open(.., "wb")\<close>,
  creates the file or truncates it to no bytes; line 48, with the end of the \<^verbatim>\<open>with\<close>
  block, puts the content into it. The writer is before line 47 with the content to
  write, between the two lines, or past them.
\<close>

datatype writer = Before bytes | Opened bytes | Closed

fun writer_step :: "writer \<Rightarrow> disk \<Rightarrow> writer \<times> disk" where
  "writer_step (Before content) d = (Opened content, Some [])"
| "writer_step (Opened content) d = (Closed, Some content)"
| "writer_step Closed d = (Closed, d)"

text \<open>
  A schedule says which thread runs next: the writer does its next statement, or a
  request \<^verbatim>\<open>GET /api/image.jpg\<close> is served by \<^verbatim>\<open>get_image\<close>. The handler's test
  of line 87 and its read count as one step, since nothing ever deletes the file. The
  result is the responses, in order, and the file at the end.
\<close>

datatype turn = Writer_turn | Reader_turn

fun interleaved :: "turn list \<Rightarrow> writer \<Rightarrow> disk \<Rightarrow> http_response list \<times> disk" where
  "interleaved [] w d = ([], d)"
| "interleaved (Writer_turn # ts) w d =
     (case writer_step w d of (w', d') \<Rightarrow> interleaved ts w' d')"
| "interleaved (Reader_turn # ts) w d =
     (case interleaved ts w d of (rs, d') \<Rightarrow> (send (get_image d) # rs, d'))"

section \<open>Concrete worlds\<close>

text \<open>
  A provider that gives the same answer to every URL, a standard output that prints
  every line and one that prints none, a loop whose every iteration meets the same
  world, one day, and the first two bytes of a JPEG file.
\<close>

definition prints_all :: "log_line \<Rightarrow> exn option" where
  "prints_all l = None"

definition prints_none :: "exn \<Rightarrow> log_line \<Rightarrow> exn option" where
  "prints_none x l = Some x"

definition every_url :: "http_get \<Rightarrow> string \<Rightarrow> http_get" where
  "every_url r url = r"

definition every_time :: "env \<Rightarrow> nat \<Rightarrow> env" where
  "every_time e i = e"

definition example_day :: utc_date where
  "example_day = \<lparr>year = 2024, month = 3, day = 7\<rparr>"

definition jpeg_header :: bytes where
  "jpeg_header = [0xFF, 0xD8]"

section \<open>Properties of the request URL\<close>

declare str_nat.simps [simp del]

lemma digit_0: "digit 0 = CHR ''0''"
  by (simp add: digit_def)

lemma str_nat_1: "n < 10 \<Longrightarrow> str_nat n = [digit n]"
  by (simp add: str_nat.simps [of n])

lemma str_nat_2: "10 \<le> n \<Longrightarrow> n < 100 \<Longrightarrow> str_nat n = [digit (n div 10), digit n]"
  by (simp add: str_nat.simps [of n] str_nat_1)



lemma str_nat_3:
  assumes "100 \<le> n" and "n < 1000"
  shows "str_nat n = [digit (n div 100), digit (n div 10), digit n]"
proof -
  have "str_nat n = str_nat (n div 10) @ [digit n]"
    using assms by (simp add: str_nat.simps [of n])
  moreover have "str_nat (n div 10) = [digit (n div 10 div 10), digit (n div 10)]"
    using assms by (intro str_nat_2) auto
  moreover have "n div 10 div 10 = n div 100"
    by (simp add: div_mult2_eq [symmetric])
  ultimately show ?thesis by simp
qed

lemma str_nat_4:
  assumes "1000 \<le> n" and "n < 10000"
  shows "str_nat n = [digit (n div 1000), digit (n div 100), digit (n div 10), digit n]"
proof -
  have "str_nat n = str_nat (n div 10) @ [digit n]"
    using assms by (simp add: str_nat.simps [of n])
  moreover have "str_nat (n div 10) =
      [digit (n div 10 div 100), digit (n div 10 div 10), digit (n div 10)]"
    using assms by (intro str_nat_3) auto
  moreover have "n div 10 div 10 = n div 100" and "n div 10 div 100 = n div 1000"
    by (simp_all add: div_mult2_eq [symmetric])
  ultimately show ?thesis by simp
qed


lemma replicate_zeros:
  "replicate (Suc 0) x = [x]" "replicate 2 x = [x, x]" "replicate 3 x = [x, x, x]"
  by (simp_all add: numeral_2_eq_2 numeral_3_eq_3)

lemma zero_padded_2: "n < 100 \<Longrightarrow> zero_padded 2 n = [digit (n div 10), digit n]"
  by (cases "n < 10") (simp_all add: zero_padded_def str_nat_1 str_nat_2 digit_0)

lemma zero_padded_4:
  assumes "n < 10000"
  shows "zero_padded 4 n = [digit (n div 1000), digit (n div 100), digit (n div 10), digit n]"
proof -
  consider "n < 10" | "10 \<le> n" "n < 100" | "100 \<le> n" "n < 1000" | "1000 \<le> n"
    by linarith
  then show ?thesis
  proof cases
    case 1
    then have "n div 10 = 0" "n div 100 = 0" "n div 1000 = 0" by simp_all
    with 1 show ?thesis
      by (simp add: zero_padded_def str_nat_1 digit_0 replicate_zeros)
  next
    case 2
    then have "n div 100 = 0" "n div 1000 = 0" by simp_all
    with 2 show ?thesis
      by (simp add: zero_padded_def str_nat_2 digit_0 replicate_zeros)
  next
    case 3
    then have "n div 1000 = 0" by simp
    with 3 show ?thesis
      by (simp add: zero_padded_def str_nat_3 digit_0 replicate_zeros)
  next
    case 4
    with assms show ?thesis
      by (simp add: zero_padded_def str_nat_4)
  qed
qed

lemma bbox_str:
  "float_str LON_MIN = ''-46.5''" "float_str LAT_MIN = ''-17.5''"
  "float_str LON_MAX = ''-42.0''" "float_str LAT_MAX = ''-14.0''"
  by (simp_all add: float_str_def LON_MIN_def LAT_MIN_def LON_MAX_def LAT_MAX_def
      str_nat_2 digit_def)

text \<open>
  Claim C8. Every URL that the download requests encodes the image format JPEG, the
  output size 800 by 800, the bounding box west -46.5, south -17.5, east -42.0,
  north -14.0, and the UTC date as YYYY-MM-DD in the TIME parameter: the four digits of
  the year, the two of the month and the two of the day (\<open>digit n\<close> is the last decimal
  digit of \<open>n\<close>).
\<close>

theorem gibs_url_encodes:
  assumes "year d \<le> 9999" and "month d \<le> 12" and "day d \<le> 31"
  shows "gibs_url (strftime_Ymd d) =
    ''https://gibs.earthdata.nasa.gov/wms/epsg4326/best/wms.cgi?SERVICE=WMS''
    @ ''&REQUEST=GetMap&VERSION=1.3.0&LAYERS=VIIRS_SNPP_CorrectedReflectance_TrueColor''
    @ ''&STYLES='' @ ''&FORMAT=image/jpeg'' @ ''&TRANSPARENT=FALSE''
    @ ''&HEIGHT=800'' @ ''&WIDTH=800'' @ ''&CRS=EPSG:4326''
    @ ''&BBOX=-46.5,-17.5,-42.0,-14.0''
    @ ''&TIME=''
    @ [digit (year d div 1000), digit (year d div 100), digit (year d div 10), digit (year d)]
    @ ''-'' @ [digit (month d div 10), digit (month d)]
    @ ''-'' @ [digit (day d div 10), digit (day d)]"
proof -
  have "zero_padded 4 (year d) =
      [digit (year d div 1000), digit (year d div 100), digit (year d div 10), digit (year d)]"
    using assms(1) by (simp add: zero_padded_4)
  moreover have "zero_padded 2 (month d) = [digit (month d div 10), digit (month d)]"
    using assms(2) by (simp add: zero_padded_2)
  moreover have "zero_padded 2 (day d) = [digit (day d div 10), digit (day d)]"
    using assms(3) by (simp add: zero_padded_2)
  ultimately show ?thesis
    by (simp add: gibs_url_def strftime_Ymd_def bbox_str)
qed

theorem gibs_url_encodes_witness:
  "gibs_url (strftime_Ymd \<lparr>year = 2024, month = 3, day = 7\<rparr>) =
    ''https://gibs.earthdata.nasa.gov/wms/epsg4326/best/wms.cgi?SERVICE=WMS&REQUEST=GetMap&VERSION=1.3.0&LAYERS=VIIRS_SNPP_CorrectedReflectance_TrueColor&STYLES=&FORMAT=image/jpeg&TRANSPARENT=FALSE&HEIGHT=800&WIDTH=800&CRS=EPSG:4326&BBOX=-46.5,-17.5,-42.0,-14.0&TIME=2024-03-07''"
  using gibs_url_encodes [of "\<lparr>year = 2024, month = 3, day = 7\<rparr>"]
  by (simp add: digit_def)

section \<open>Properties of the download\<close>

lemma get_gibs_image_start_raises:
  assumes "stdout e Log_start = Some x"
  shows "get_gibs_image e d = (Inl x, d, [])"
  using assms by (simp add: get_gibs_image_def)

lemma get_gibs_image_clock:
  assumes "stdout e Log_start = None" and "clock e = Inl x"
  shows "get_gibs_image e d =
    (case stdout e (Log_exn x) of
       Some y \<Rightarrow> (Inl y, d, [Log_start])
     | None \<Rightarrow> (Inr False, d, [Log_start, Log_exn x]))"
  using assms by (simp add: get_gibs_image_def try_body_def split: option.split)

lemma get_gibs_image_raised:
  assumes "stdout e Log_start = None" and "clock e = Inr today"
    and "net e (gibs_url (strftime_Ymd today)) = Raised x"
  shows "get_gibs_image e d =
    (case stdout e (Log_exn x) of
       Some y \<Rightarrow> (Inl y, d, [Log_start])
     | None \<Rightarrow> (Inr False, d, [Log_start, Log_exn x]))"
  using assms by (simp add: get_gibs_image_def try_body_def split: option.split)

lemma get_gibs_image_status:
  assumes "stdout e Log_start = None" and "clock e = Inr today"
    and "net e (gibs_url (strftime_Ymd today)) = Replied s c" and "s \<noteq> 200"
  shows "get_gibs_image e d =
    (case stdout e (Log_status s) of
       None \<Rightarrow> (Inr False, d, [Log_start, Log_status s])
     | Some x \<Rightarrow>
         (case stdout e (Log_exn x) of
            Some y \<Rightarrow> (Inl y, d, [Log_start])
          | None \<Rightarrow> (Inr False, d, [Log_start, Log_exn x])))"
  using assms by (simp add: get_gibs_image_def try_body_def split: option.splits)

lemma get_gibs_image_200:
  assumes "stdout e Log_start = None" and "clock e = Inr today"
    and "net e (gibs_url (strftime_Ymd today)) = Replied 200 c"
  shows "get_gibs_image e d =
    (case io e of
       Written \<Rightarrow>
         (case stdout e Log_done of
            None \<Rightarrow> (Inr True, Some c, [Log_start, Log_done])
          | Some x \<Rightarrow>
              (case stdout e (Log_exn x) of
                 Some y \<Rightarrow> (Inl y, Some c, [Log_start])
               | None \<Rightarrow> (Inr False, Some c, [Log_start, Log_exn x])))
     | Open_raises x \<Rightarrow>
         (case stdout e (Log_exn x) of
            Some y \<Rightarrow> (Inl y, d, [Log_start])
          | None \<Rightarrow> (Inr False, d, [Log_start, Log_exn x]))
     | Write_raises k x \<Rightarrow>
         (case stdout e (Log_exn x) of
            Some y \<Rightarrow> (Inl y, Some (take k c), [Log_start])
          | None \<Rightarrow> (Inr False, Some (take k c), [Log_start, Log_exn x])))"
  using assms
  by (simp add: get_gibs_image_def try_body_def split: file_write.splits option.splits)

lemma get_gibs_image_returns:
  assumes "stdout e Log_start = None" and "\<forall>x. stdout e (Log_exn x) = None"
  shows "\<exists>b. fst (get_gibs_image e d) = Inr b"
proof (cases "try_body e d" rule: prod_cases3)
  case (fields r d' out)
  with assms show ?thesis
    by (cases r) (auto simp add: get_gibs_image_def)
qed

lemma failed_download_keeps_disk:
  assumes "\<forall>today c. clock e = Inr today \<longrightarrow>
      net e (gibs_url (strftime_Ymd today)) \<noteq> Replied 200 c"
  shows "fst (snd (get_gibs_image e d)) = d"
proof (cases "stdout e Log_start")
  case (Some x)
  then show ?thesis by (simp add: get_gibs_image_start_raises)
next
  case None
  show ?thesis
  proof (cases "clock e")
    case (Inl x)
    with None show ?thesis by (simp add: get_gibs_image_clock split: option.split)
  next
    case (Inr today)
    show ?thesis
    proof (cases "net e (gibs_url (strftime_Ymd today))")
      case (Raised x)
      with None Inr show ?thesis by (simp add: get_gibs_image_raised split: option.split)
    next
      case (Replied s c)
      with Inr assms have "s \<noteq> 200" by auto
      with None Inr Replied show ?thesis
        by (simp add: get_gibs_image_status split: option.split)
    qed
  qed
qed

text \<open>
  Claim C10, as stated: a download never lets an exception escape to its caller, and
  returns \<^verbatim>\<open>True\<close> on a 200 response. Neither holds. On a standard output that
  cannot encode the lines, the \<^verbatim>\<open>print\<close> of line 29, which stands before the
  \<^verbatim>\<open>try\<close>, raises and that exception escapes. And a 200 response whose write raises
  gives \<^verbatim>\<open>False\<close>.
\<close>

theorem get_gibs_image_escape_counterexample:
  "fst (get_gibs_image
     \<lparr>clock = Inr example_day, net = every_url (Raised (Exn ''Read timed out'')),
      io = Written, stdout = prints_none (Exn ''UnicodeEncodeError'')\<rparr> None)
     = Inl (Exn ''UnicodeEncodeError'')
   \<and> fst (get_gibs_image
     \<lparr>clock = Inr example_day, net = every_url (Replied 200 jpeg_header),
      io = Write_raises 1 (Exn ''[Errno 28] No space left on device''),
      stdout = prints_all\<rparr> None) = Inr False"
  by (simp add: get_gibs_image_def try_body_def every_url_def prints_none_def prints_all_def)

text \<open>
  Claim C10, amended. When the \<^verbatim>\<open>print\<close> calls of lines 29 and 56 do not raise, a
  download lets no exception escape: every exception raised by the clock, the network
  request, the file write or a \<^verbatim>\<open>print\<close> inside the \<^verbatim>\<open>try\<close> is caught, and
  \<^verbatim>\<open>get_gibs_image\<close> returns a boolean. It returns \<^verbatim>\<open>True\<close> on a 200 response that is
  written and reported without an exception, and \<^verbatim>\<open>False\<close> otherwise.
\<close>

theorem get_gibs_image_never_raises:
  assumes "stdout e Log_start = None" and "\<forall>x. stdout e (Log_exn x) = None"
  shows "fst (get_gibs_image e d) =
     Inr (\<exists>today content. clock e = Inr today
            \<and> net e (gibs_url (strftime_Ymd today)) = Replied 200 content
            \<and> io e = Written \<and> stdout e Log_done = None)"
proof (cases "clock e")
  case (Inl x)
  with assms show ?thesis by (simp add: get_gibs_image_clock)
next
  case (Inr today)
  show ?thesis
  proof (cases "net e (gibs_url (strftime_Ymd today))")
    case (Raised x)
    with assms Inr show ?thesis by (simp add: get_gibs_image_raised)
  next
    case (Replied s c)
    show ?thesis
    proof (cases "s = 200")
      case True
      with assms Inr Replied show ?thesis
        by (cases "io e"; cases "stdout e Log_done") (simp_all add: get_gibs_image_200)
    next
      case False
      with assms Inr Replied show ?thesis
        by (cases "stdout e (Log_status s)") (simp_all add: get_gibs_image_status)
    qed
  qed
qed

theorem get_gibs_image_never_raises_witness:
  "fst (get_gibs_image
     \<lparr>clock = Inr example_day, net = every_url (Replied 200 jpeg_header),
      io = Open_raises (Exn ''[Errno 13] Permission denied''), stdout = prints_all\<rparr> None)
     = Inr False
   \<and> fst (get_gibs_image
     \<lparr>clock = Inr example_day, net = every_url (Raised (Exn ''Read timed out'')),
      io = Written, stdout = prints_all\<rparr> None) = Inr False
   \<and> fst (get_gibs_image
     \<lparr>clock = Inr example_day, net = every_url (Replied 200 jpeg_header),
      io = Written, stdout = prints_all\<rparr> None) = Inr True"
  using
    get_gibs_image_never_raises [of "\<lparr>clock = Inr example_day,
      net = every_url (Replied 200 jpeg_header),
      io = Open_raises (Exn ''[Errno 13] Permission denied''), stdout = prints_all\<rparr>" None]
    get_gibs_image_never_raises [of "\<lparr>clock = Inr example_day,
      net = every_url (Raised (Exn ''Read timed out'')), io = Written,
      stdout = prints_all\<rparr>" None]
    get_gibs_image_never_raises [of "\<lparr>clock = Inr example_day,
      net = every_url (Replied 200 jpeg_header), io = Written, stdout = prints_all\<rparr>" None]
  by (simp add: every_url_def prints_all_def)

text \<open>
  Claim C2. A download that fails, by a status other than 200 or by an exception of the
  network request, leaves the file exactly as it was, and the next read answers what it
  would have answered before the download. This holds whatever \<^verbatim>\<open>print\<close> does; when
  the \<^verbatim>\<open>print\<close> calls of lines 29 and 56 do not raise, the download returns
  \<^verbatim>\<open>False\<close>.
\<close>

theorem failure_leaves_store:
  assumes "clock e = Inr today"
    and "net e (gibs_url (strftime_Ymd today)) = r"
    and "(\<exists>x. r = Raised x) \<or> (\<exists>s c. r = Replied s c \<and> s \<noteq> 200)"
  shows "(stdout e Log_start = None \<and> (\<forall>x. stdout e (Log_exn x) = None) \<longrightarrow>
       fst (get_gibs_image e d) = Inr False)
    \<and> fst (snd (get_gibs_image e d)) = d
    \<and> run [Download e, Get_image] d = run [Get_image] d"
proof -
  have no200: "\<forall>today c. clock e = Inr today \<longrightarrow>
      net e (gibs_url (strftime_Ymd today)) \<noteq> Replied 200 c"
    using assms by auto
  then have keep: "fst (snd (get_gibs_image e d)) = d"
    by (rule failed_download_keeps_disk)
  have "fst (get_gibs_image e d) = Inr False"
    if "stdout e Log_start = None" and "\<forall>x. stdout e (Log_exn x) = None"
    using that assms
    by (auto simp add: get_gibs_image_raised get_gibs_image_status split: option.split)
  with keep show ?thesis by simp
qed

theorem failure_leaves_store_witness:
  "fst (get_gibs_image \<lparr>clock = Inr example_day, net = every_url (Replied 404 []),
        io = Written, stdout = prints_all\<rparr> (Some jpeg_header)) = Inr False
   \<and> fst (snd (get_gibs_image
        \<lparr>clock = Inr example_day, net = every_url (Replied 404 []), io = Written,
         stdout = prints_all\<rparr> (Some jpeg_header))) = Some jpeg_header
   \<and> run [Download \<lparr>clock = Inr example_day, net = every_url (Replied 404 []),
           io = Written, stdout = prints_all\<rparr>, Get_image] (Some jpeg_header)
     = ([\<lparr>status_code = 200, content_type = ''image/jpeg'', body = Raw jpeg_header\<rparr>],
        Some jpeg_header)"
  using failure_leaves_store [of "\<lparr>clock = Inr example_day,
      net = every_url (Replied 404 []), io = Written, stdout = prints_all\<rparr>"
      example_day "Replied 404 []" "Some jpeg_header"]
  by (simp add: every_url_def prints_all_def get_image_def send_def)

text \<open>
  Claim C4, as stated: the download succeeds exactly when the status is 200. It does
  not: the provider answers 200 with a body, \<^verbatim>\<open>open\<close> raises, and the download returns
  \<^verbatim>\<open>False\<close>.
\<close>

theorem success_on_200_counterexample:
  "net \<lparr>clock = Inr example_day, net = every_url (Replied 200 jpeg_header),
        io = Open_raises (Exn ''[Errno 13] Permission denied''), stdout = prints_all\<rparr>
      (gibs_url (strftime_Ymd example_day)) = Replied 200 jpeg_header
   \<and> fst (get_gibs_image
     \<lparr>clock = Inr example_day, net = every_url (Replied 200 jpeg_header),
      io = Open_raises (Exn ''[Errno 13] Permission denied''), stdout = prints_all\<rparr> None)
     = Inr False"
  by (simp add: get_gibs_image_def try_body_def every_url_def prints_all_def)

text \<open>
  Claim C4, amended. With a standard output that prints every line, the download
  returns \<^verbatim>\<open>True\<close> exactly when the status is 200 and the body is written to the file
  without an exception, and the file then holds the raw body. In every other case it
  returns \<^verbatim>\<open>False\<close> and prints the reason: the status code for a status other than
  200, the exception's text for an exception of the network request, and the exception's
  text as well for an exception of the file write.
\<close>

theorem fetch_outcome:
  assumes "clock e = Inr today" and "net e (gibs_url (strftime_Ymd today)) = r"
    and "\<forall>l. stdout e l = None"
  shows "(case r of
      Replied s c \<Rightarrow>
        (fst (get_gibs_image e d) = Inr True) = (s = 200 \<and> io e = Written)
        \<and> (fst (get_gibs_image e d) = Inr True \<longrightarrow> fst (snd (get_gibs_image e d)) = Some c)
        \<and> (s \<noteq> 200 \<longrightarrow> get_gibs_image e d = (Inr False, d, [Log_start, Log_status s]))
        \<and> (\<forall>x. s = 200 \<and> (io e = Open_raises x \<or> (\<exists>k. io e = Write_raises k x)) \<longrightarrow>
              fst (get_gibs_image e d) = Inr False
              \<and> snd (snd (get_gibs_image e d)) = [Log_start, Log_exn x])
    | Raised x \<Rightarrow> get_gibs_image e d = (Inr False, d, [Log_start, Log_exn x]))"
proof (cases r)
  case (Raised x)
  with assms show ?thesis by (simp add: get_gibs_image_raised)
next
  case (Replied s c)
  show ?thesis
  proof (cases "s = 200")
    case True
    with assms Replied show ?thesis
      by (cases "io e") (auto simp add: get_gibs_image_200)
  next
    case False
    with assms Replied show ?thesis by (simp add: get_gibs_image_status)
  qed
qed

theorem fetch_outcome_witness:
  "fst (get_gibs_image
     \<lparr>clock = Inr example_day, net = every_url (Replied 200 jpeg_header), io = Written,
      stdout = prints_all\<rparr> None)
     = Inr True
   \<and> fst (snd (get_gibs_image
     \<lparr>clock = Inr example_day, net = every_url (Replied 200 jpeg_header), io = Written,
      stdout = prints_all\<rparr> None))
     = Some jpeg_header
   \<and> get_gibs_image
     \<lparr>clock = Inr example_day, net = every_url (Replied 503 []), io = Written,
      stdout = prints_all\<rparr> None
     = (Inr False, None, [Log_start, Log_status 503])
   \<and> get_gibs_image
     \<lparr>clock = Inr example_day, net = every_url (Raised (Exn ''Connection refused'')),
      io = Written, stdout = prints_all\<rparr> None
     = (Inr False, None, [Log_start, Log_exn (Exn ''Connection refused'')])"
  using
    fetch_outcome [of "\<lparr>clock = Inr example_day, net = every_url (Replied 200 jpeg_header),
      io = Written, stdout = prints_all\<rparr>" example_day "Replied 200 jpeg_header" None]
    fetch_outcome [of "\<lparr>clock = Inr example_day, net = every_url (Replied 503 []),
      io = Written, stdout = prints_all\<rparr>" example_day "Replied 503 []" None]
    fetch_outcome [of "\<lparr>clock = Inr example_day,
      net = every_url (Raised (Exn ''Connection refused'')), io = Written,
      stdout = prints_all\<rparr>" example_day "Raised (Exn ''Connection refused'')" None]
  by (simp add: every_url_def prints_all_def)

text \<open>
  Claim C5. After a download that succeeded with the body \<open>B\<close>, the next read
  answers with status 200, content type \<^verbatim>\<open>image/jpeg\<close> and a body equal to \<open>B\<close>.
\<close>

theorem success_then_read:
  assumes "clock e = Inr today"
    and "net e (gibs_url (strftime_Ymd today)) = Replied s B"
    and "fst (get_gibs_image e d) = Inr True"
  shows "run [Download e, Get_image] d =
    ([\<lparr>status_code = 200, content_type = ''image/jpeg'', body = Raw B\<rparr>], Some B)"
proof -
  have start: "stdout e Log_start = None"
    using assms(3) by (cases "stdout e Log_start") (simp_all add: get_gibs_image_start_raises)
  have s: "s = 200"
    using assms start
    by (cases "s = 200") (auto simp add: get_gibs_image_status split: option.splits)
  have "fst (snd (get_gibs_image e d)) = Some B"
    using assms start s
    by (cases "io e") (auto simp add: get_gibs_image_200 split: option.splits)
  then show ?thesis by (simp add: get_image_def send_def)
qed

theorem success_then_read_witness:
  "run [Download \<lparr>clock = Inr example_day, net = every_url (Replied 200 jpeg_header),
      io = Written, stdout = prints_all\<rparr>, Get_image] None =
    ([\<lparr>status_code = 200, content_type = ''image/jpeg'', body = Raw jpeg_header\<rparr>],
     Some jpeg_header)"
  using success_then_read [of "\<lparr>clock = Inr example_day,
      net = every_url (Replied 200 jpeg_header), io = Written, stdout = prints_all\<rparr>"
      example_day 200 jpeg_header None]
  by (simp add: every_url_def prints_all_def get_gibs_image_def try_body_def)

section \<open>Properties of the endpoint\<close>

text \<open>
  Claim C3, as stated: at process start a read answers "not available" even when a file
  of an earlier run is on disk. It does not: the first read of the process, before any
  download, serves that file.
\<close>

theorem prior_file_is_served:
  "run [Get_image] (module_init (Some jpeg_header)) =
     ([\<lparr>status_code = 200, content_type = ''image/jpeg'', body = Raw jpeg_header\<rparr>],
      Some jpeg_header)
   \<and> fst (run [Get_image] (module_init (Some jpeg_header))) \<noteq>
     [\<lparr>status_code = 200, content_type = ''application/json'',
       body = Json [(''error'', not_found_message)]\<rparr>]"
  by (simp add: module_init_def get_image_def send_def)

text \<open>
  Claim C3, amended. At process start, before the first download, a read is answered
  from the file on disk: with the not-available payload exactly when no file exists, and
  with the bytes of the file when one exists, also when an earlier run left it.
\<close>

theorem first_read_from_disk:
  "fst (run [Get_image] (module_init on_disk)) =
     [case on_disk of
        None \<Rightarrow> \<lparr>status_code = 200, content_type = ''application/json'',
                  body = Json [(''error'', not_found_message)]\<rparr>
      | Some content \<Rightarrow> \<lparr>status_code = 200, content_type = ''image/jpeg'', body = Raw content\<rparr>]"
  by (simp add: module_init_def get_image_def send_def split: option.split)

theorem first_read_from_disk_witness:
  "fst (run [Get_image] (module_init None)) =
     [\<lparr>status_code = 200, content_type = ''application/json'',
       body = Json [(''error'', not_found_message)]\<rparr>]
   \<and> fst (run [Get_image] (module_init (Some [0x4A, 0x46]))) =
     [\<lparr>status_code = 200, content_type = ''image/jpeg'', body = Raw [0x4A, 0x46]\<rparr>]"
  using first_read_from_disk [of None] first_read_from_disk [of "Some [0x4A, 0x46]"]
  by simp

text \<open>
  Claim C9. Reads repeated with no download in between all return the same response,
  and leave the file as it was.
\<close>

theorem repeated_reads:
  "run (replicate n Get_image) d = (replicate n (send (get_image d)), d)"
  by (induction n) simp_all

theorem repeated_reads_witness:
  "run (replicate 3 Get_image) (Some jpeg_header) =
     (replicate 3 \<lparr>status_code = 200, content_type = ''image/jpeg'', body = Raw jpeg_header\<rparr>,
      Some jpeg_header)"
  using repeated_reads [of 3 "Some jpeg_header"]
  by (simp add: get_image_def send_def)

lemma run_failed_downloads:
  assumes "\<forall>e \<in> set es. \<forall>today c. clock e = Inr today \<longrightarrow>
      net e (gibs_url (strftime_Ymd today)) \<noteq> Replied 200 c"
  shows "run (map Download es @ as) d = run as d"
  using assms by (induction es) (simp_all add: failed_download_keeps_disk)

text \<open>
  Claim C7, as stated: as long as no download has succeeded, a read answers with the
  JSON error payload. It does not: the provider answers 200, \<^verbatim>\<open>open\<close> truncates the
  file and \<^verbatim>\<open>f.write\<close> raises; the download returns \<^verbatim>\<open>False\<close>, and the next read
  serves the empty file as an image.
\<close>

theorem absent_read_counterexample:
  "fst (get_gibs_image
     \<lparr>clock = Inr example_day, net = every_url (Replied 200 jpeg_header),
      io = Write_raises 0 (Exn ''[Errno 28] No space left on device''),
      stdout = prints_all\<rparr> None) = Inr False
   \<and> run [Download \<lparr>clock = Inr example_day, net = every_url (Replied 200 jpeg_header),
          io = Write_raises 0 (Exn ''[Errno 28] No space left on device''),
          stdout = prints_all\<rparr>, Get_image] None =
     ([\<lparr>status_code = 200, content_type = ''image/jpeg'', body = Raw []\<rparr>], Some [])"
  by (simp add: get_gibs_image_def try_body_def every_url_def prints_all_def
      get_image_def send_def)

text \<open>
  Claim C7, amended. While the image file does not exist, as it does not from a start
  without a file as long as no download has got a 200 response, a read raises nothing:
  it answers with the JSON payload \<^verbatim>\<open>{"error": message}\<close> and status 200.
\<close>

theorem absent_read:
  assumes "\<forall>e \<in> set es. \<forall>today c. clock e = Inr today \<longrightarrow>
      net e (gibs_url (strftime_Ymd today)) \<noteq> Replied 200 c"
  shows "run (map Download es @ [Get_image]) None =
    ([\<lparr>status_code = 200, content_type = ''application/json'',
       body = Json [(''error'', not_found_message)]\<rparr>], None)"
  using assms by (simp add: run_failed_downloads get_image_def send_def)

theorem absent_read_witness:
  "run [Download \<lparr>clock = Inr example_day, net = every_url (Replied 404 []), io = Written,
          stdout = prints_all\<rparr>,
        Download \<lparr>clock = Inr example_day,
          net = every_url (Raised (Exn ''Name or service not known'')), io = Written,
          stdout = prints_all\<rparr>,
        Get_image] None =
    ([\<lparr>status_code = 200, content_type = ''application/json'',
       body = Json [(''error'', not_found_message)]\<rparr>], None)"
  using absent_read [of "[\<lparr>clock = Inr example_day, net = every_url (Replied 404 []),
        io = Written, stdout = prints_all\<rparr>,
      \<lparr>clock = Inr example_day, net = every_url (Raised (Exn ''Name or service not known'')),
        io = Written, stdout = prints_all\<rparr>]"]
  by (simp add: every_url_def get_image_def send_def)

section \<open>Properties of a read during a write\<close>

text \<open>
  The two steps of the writer, one after the other, leave the file that a successful
  download leaves.
\<close>

lemma writer_is_the_write:
  assumes "fst (get_gibs_image e d) = Inr True" and "clock e = Inr today"
    and "net e (gibs_url (strftime_Ymd today)) = Replied s content"
  shows "interleaved [Writer_turn, Writer_turn] (Before content) d =
    ([], fst (snd (get_gibs_image e d)))"
proof -
  have start: "stdout e Log_start = None"
    using assms(1) by (cases "stdout e Log_start") (simp_all add: get_gibs_image_start_raises)
  have s: "s = 200"
    using assms start
    by (cases "s = 200") (auto simp add: get_gibs_image_status split: option.splits)
  have "fst (snd (get_gibs_image e d)) = Some content"
    using assms start s
    by (cases "io e") (auto simp add: get_gibs_image_200 split: option.splits)
  then show ?thesis by simp
qed





section \<open>Properties of the refresh loop\<close>

text \<open>
  Claim C6, as stated: the loop has no terminal state and nothing ends it. It can end:
  on a standard output that cannot encode the lines, the \<^verbatim>\<open>print\<close> of line 29
  raises, the exception escapes from \<^verbatim>\<open>get_gibs_image\<close>, and the loop, which has no
  \<^verbatim>\<open>try\<close> of its own, ends in its first iteration, before any sleep.
\<close>

theorem refresh_loop_dies_counterexample:
  "atualizar_periodicamente 1
     (every_time \<lparr>clock = Inr example_day, net = every_url (Raised (Exn ''Read timed out'')),
        io = Written, stdout = prints_none (Exn ''UnicodeEncodeError'')\<rparr>) 0 None [] =
   Ended (Exn ''UnicodeEncodeError'') None [Died (Exn ''UnicodeEncodeError'')]"
  by (simp add: get_gibs_image_def every_time_def prints_none_def)

lemma loop_runs:
  assumes "\<forall>k. stdout (envs k) Log_start = None \<and> (\<forall>x. stdout (envs k) (Log_exn x) = None)"
  shows "atualizar_periodicamente n envs i (disk_at envs d i) evs =
    Running (i + n) (disk_at envs d (i + n))
      (evs @ concat (map (\<lambda>k. [Attempt (outcome envs d k), Sleep 14400]) [i..<i + n]))"
proof (induction n arbitrary: i evs)
  case 0
  then show ?case by simp
next
  case (Suc n)
  have "stdout (envs i) Log_start = None" and "\<forall>x. stdout (envs i) (Log_exn x) = None"
    using assms by simp_all
  then have "\<exists>b. fst (get_gibs_image (envs i) (disk_at envs d i)) = Inr b"
    by (rule get_gibs_image_returns)
  then obtain b where b: "fst (get_gibs_image (envs i) (disk_at envs d i)) = Inr b" ..
  then have o: "outcome envs d i = b"
    by (simp add: outcome_def)
  obtain r d' out where g: "get_gibs_image (envs i) (disk_at envs d i) = (r, d', out)"
    by (cases "get_gibs_image (envs i) (disk_at envs d i)")
  from g b have r: "r = Inr b" by simp
  from g have d': "disk_at envs d (Suc i) = d'" by simp
  have "atualizar_periodicamente (Suc n) envs i (disk_at envs d i) evs =
      atualizar_periodicamente n envs (Suc i) d' (evs @ [Attempt b, Sleep 14400])"
    unfolding atualizar_periodicamente.simps g r by simp
  also have "\<dots> = atualizar_periodicamente n envs (Suc i) (disk_at envs d (Suc i))
      (evs @ [Attempt b, Sleep 14400])"
    unfolding d' ..
  also have "\<dots> = Running (Suc i + n) (disk_at envs d (Suc i + n))
      ((evs @ [Attempt b, Sleep 14400])
        @ concat (map (\<lambda>k. [Attempt (outcome envs d k), Sleep 14400]) [Suc i..<Suc i + n]))"
    by (rule Suc.IH)
  also have "[i..<i + Suc n] = i # [Suc i..<Suc i + n]"
    by (simp add: upt_conv_Cons)
  then have "(evs @ [Attempt b, Sleep 14400])
        @ concat (map (\<lambda>k. [Attempt (outcome envs d k), Sleep 14400]) [Suc i..<Suc i + n])
      = evs @ concat (map (\<lambda>k. [Attempt (outcome envs d k), Sleep 14400]) [i..<i + Suc n])"
    using o by simp
  finally show ?case by simp
qed

text \<open>
  Claim C6, amended. As long as the \<^verbatim>\<open>print\<close> calls of lines 29 and 56 do not
  raise, the loop never ends, whatever the downloads do: after any number \<open>n\<close> of
  iterations it is still running. It starts with a download, and every download,
  whether it returned \<^verbatim>\<open>True\<close> or \<^verbatim>\<open>False\<close>, is followed by a sleep of exactly 14400
  seconds before the next one: the events of the first \<open>n\<close> iterations are, for each
  \<open>k\<close> below \<open>n\<close> in turn, the \<open>k\<close>-th download with its result and a sleep of
  14400.
\<close>

theorem refresh_loop_forever:
  assumes "\<forall>k. stdout (envs k) Log_start = None \<and> (\<forall>x. stdout (envs k) (Log_exn x) = None)"
  shows "atualizar_periodicamente n envs 0 d [] =
    Running n (disk_at envs d n)
      (concat (map (\<lambda>k. [Attempt (outcome envs d k), Sleep 14400]) [0..<n]))"
  using loop_runs [OF assms, of n 0 d "[]"] by simp


theorem refresh_loop_forever_witness:
  "atualizar_periodicamente 2
     (every_time \<lparr>clock = Inr example_day, net = every_url (Replied 500 []), io = Written,
        stdout = prints_all\<rparr>) 0 (Some jpeg_header) [] =
   Running 2 (Some jpeg_header) [Attempt False, Sleep 14400, Attempt False, Sleep 14400]"
  using refresh_loop_forever [of "every_time \<lparr>clock = Inr example_day,
      net = every_url (Replied 500 []), io = Written, stdout = prints_all\<rparr>"
      2 "Some jpeg_header"]
  by (simp add: every_time_def every_url_def prints_all_def outcome_def numeral_2_eq_2
      get_gibs_image_def try_body_def)

end
